theory Spec2Isabelle
  imports Main
begin

section \<open>Python values, objects and the store\<close>

text \<open>
  The class \<^verbatim>\<open>Metric\<close> of \<^verbatim>\<open>keras_core/metrics/metric.py\<close> keeps its state in
  mutable objects that are shared by reference: the list \<^verbatim>\<open>self._variables\<close> is also held
  by the tracker, child metrics are reached through \<^verbatim>\<open>self._metrics\<close>, and the tracker
  remembers objects by \<^verbatim>\<open>id\<close>. The model therefore has an explicit store: a list of
  objects, the address of an object being its index (which also plays the part of
  \<^verbatim>\<open>id(obj)\<close>). Objects are never freed.
\<close>

type_synonym addr = nat

datatype pyval = PyNone | PyStr string | PyRef addr

datatype error =
    RuntimeError string
  | NotImplementedError
  | AttributeError
  | TypeError
  | KeyError
  | ValueError
  | OutOfModel

text \<open>
  \<open>OutOfModel\<close> is not a Python exception: it marks the few places where an attribute
  of a metric has been rebound to a value on which Python's behaviour depends on code
  that is not modelled (slicing a string, iterating a backend variable). No theorem below
  is about such a state.
\<close>

text \<open>
  Modelled from the spec: \<^verbatim>\<open>backend.Variable\<close> is not among the sources. The spec
  describes it as a named, shaped, typed mutable numeric container that is created from
  (shape, initializer, dtype, trainable flag, name) and supports zero-assignment and
  value-assignment. Its numeric content is abstracted to one integer.
\<close>

record variable =
  var_shape :: "nat list"
  var_dtype :: pyval
  var_trainable :: bool
  var_name :: pyval
  var_value :: int

text \<open>
  The two predicates \<^verbatim>\<open>lambda x: isinstance(x, backend.Variable)\<close> and
  \<^verbatim>\<open>lambda x: isinstance(x, Metric)\<close> that \<^verbatim>\<open>Metric.__init__\<close> hands to the tracker.
\<close>

datatype cls_pred = IsVariable | IsMetric

text \<open>
  Modelled from the spec: \<^verbatim>\<open>keras_core.utils.tracking.Tracker\<close> is not among the
  sources. From the source, a tracker is built from a dictionary that maps a store name
  to a predicate and a list, and it has a field \<^verbatim>\<open>stored_ids\<close> that maps a store name
  to a set of object ids. The dictionary is kept as an association list in insertion order.
\<close>

record tracker =
  config :: "(string \<times> cls_pred \<times> pyval) list"
  stored_ids :: "string \<Rightarrow> addr set option"

datatype obj =
    OVariable variable
  | OMetric string "string \<Rightarrow> pyval option"
  | OList "pyval list"
  | OTracker tracker

text \<open>
  \<open>OMetric c d\<close> is an instance of \<^verbatim>\<open>Metric\<close> or of a subclass: \<open>c\<close> is
  \<^verbatim>\<open>self.__class__.__name__\<close> and \<open>d\<close> the instance dictionary.
  \<open>uids\<close> counts the names handed out by the naming utility.
\<close>

record state =
  heap :: "obj list"
  uids :: nat

text \<open>
  The collaborators that live outside the sources are parameters:
  \<^verbatim>\<open>auto_name\<close> (the name-uniquification utility, applied to the class name and the
  number of names handed out so far), \<^verbatim>\<open>initializers.get\<close>, and the value with which
  \<^verbatim>\<open>backend.Variable\<close> fills a new variable from its initializer, shape and dtype.
\<close>

record env =
  auto_name :: "string \<Rightarrow> nat \<Rightarrow> string"
  initializers_get :: "pyval \<Rightarrow> error + pyval"
  initial_value :: "pyval \<Rightarrow> nat list \<Rightarrow> pyval \<Rightarrow> error + int"

subsection \<open>Computations that may raise\<close>

text \<open>
  A Python call returns a value or raises, and in both cases leaves a store behind.
\<close>

type_synonym 'a py = "state \<Rightarrow> (error + 'a) \<times> state"

definition py_return :: "'a \<Rightarrow> 'a py" where
  "py_return x s = (Inr x, s)"

definition py_raise :: "error \<Rightarrow> 'a py" where
  "py_raise e s = (Inl e, s)"

definition py_bind :: "'a py \<Rightarrow> ('a \<Rightarrow> 'b py) \<Rightarrow> 'b py" where
  "py_bind m f s = (case m s of (Inl e, s') \<Rightarrow> (Inl e, s') | (Inr x, s') \<Rightarrow> f x s')"

definition py_lift :: "error + 'a \<Rightarrow> 'a py" where
  "py_lift r s = (r, s)"

subsection \<open>The store\<close>

definition deref :: "state \<Rightarrow> addr \<Rightarrow> obj option" where
  "deref s a = (if a < length (heap s) then Some (heap s ! a) else None)"

definition store :: "addr \<Rightarrow> obj \<Rightarrow> state \<Rightarrow> state" where
  "store a ob s = s\<lparr>heap := (heap s)[a := ob]\<rparr>"

definition new_object :: "obj \<Rightarrow> addr py" where
  "new_object ob s = (Inr (length (heap s)), s\<lparr>heap := heap s @ [ob]\<rparr>)"

text \<open>
  Attribute lookup. Only metric instances carry the attributes the class reads
  (\<^verbatim>\<open>name\<close>, \<^verbatim>\<open>_dtype\<close>, \<^verbatim>\<open>_metrics\<close>, \<^verbatim>\<open>_variables\<close>, \<^verbatim>\<open>_tracker\<close>); on
  every other value the lookup raises \<^verbatim>\<open>AttributeError\<close>.
\<close>

definition attr :: "state \<Rightarrow> pyval \<Rightarrow> string \<Rightarrow> pyval option" where
  "attr s v n =
     (case v of
        PyRef a \<Rightarrow> (case deref s a of Some (OMetric c d) \<Rightarrow> d n | _ \<Rightarrow> None)
      | _ \<Rightarrow> None)"

definition hasattr :: "pyval \<Rightarrow> string \<Rightarrow> state \<Rightarrow> bool" where
  "hasattr v n s = (attr s v n \<noteq> None)"

definition getattr :: "pyval \<Rightarrow> string \<Rightarrow> pyval py" where
  "getattr v n s = (case attr s v n of Some x \<Rightarrow> (Inr x, s) | None \<Rightarrow> (Inl AttributeError, s))"

text \<open>
  \<^verbatim>\<open>object.__setattr__\<close> on a metric instance: \<^verbatim>\<open>variables\<close> and \<^verbatim>\<open>dtype\<close> are
  properties without a setter, every other name is bound in the instance dictionary.
\<close>

definition object_setattr :: "addr \<Rightarrow> string \<Rightarrow> pyval \<Rightarrow> unit py" where
  "object_setattr self n v s =
     (if n = ''variables'' \<or> n = ''dtype'' then (Inl AttributeError, s)
      else (case deref s self of
              Some (OMetric c d) \<Rightarrow> (Inr (), store self (OMetric c (d(n \<mapsto> v))) s)
            | _ \<Rightarrow> (Inl AttributeError, s)))"

definition class_name :: "addr \<Rightarrow> string py" where
  "class_name self s =
     (case deref s self of Some (OMetric c d) \<Rightarrow> (Inr c, s) | _ \<Rightarrow> (Inl AttributeError, s))"

text \<open>\<^verbatim>\<open>isinstance\<close> for the two classes the tracker asks about; \<^verbatim>\<open>id\<close>.\<close>

definition is_instance :: "cls_pred \<Rightarrow> pyval \<Rightarrow> state \<Rightarrow> bool" where
  "is_instance p v s =
     (case v of
        PyRef a \<Rightarrow>
          (case deref s a of
             Some (OVariable x) \<Rightarrow> p = IsVariable
           | Some (OMetric c d) \<Rightarrow> p = IsMetric
           | _ \<Rightarrow> False)
      | _ \<Rightarrow> False)"

definition py_id :: "pyval \<Rightarrow> addr py" where
  "py_id v s = (case v of PyRef a \<Rightarrow> (Inr a, s) | _ \<Rightarrow> (Inl OutOfModel, s))"

text \<open>Truth value of \<^verbatim>\<open>name\<close> in \<^verbatim>\<open>name or auto_name(...)\<close>.\<close>

definition py_bool :: "pyval \<Rightarrow> bool py" where
  "py_bool v s =
     (case v of
        PyNone \<Rightarrow> (Inr False, s)
      | PyStr x \<Rightarrow> (Inr (x \<noteq> []), s)
      | PyRef a \<Rightarrow>
          (case deref s a of
             Some (OList xs) \<Rightarrow> (Inr (xs \<noteq> []), s)
           | Some (OMetric c d) \<Rightarrow> (Inr True, s)
           | Some (OTracker t) \<Rightarrow> (Inr True, s)
           | _ \<Rightarrow> (Inl OutOfModel, s)))"

text \<open>\<^verbatim>\<open>xs.append(x)\<close>: only lists have the method.\<close>

definition list_append :: "pyval \<Rightarrow> pyval \<Rightarrow> unit py" where
  "list_append l x s =
     (case l of
        PyRef a \<Rightarrow>
          (case deref s a of
             Some (OList xs) \<Rightarrow> (Inr (), store a (OList (xs @ [x])) s)
           | _ \<Rightarrow> (Inl AttributeError, s))
      | _ \<Rightarrow> (Inl AttributeError, s))"

text \<open>
  \<^verbatim>\<open>xs[:]\<close> gives a new list with the elements of the list \<^verbatim>\<open>xs\<close>. The new list is
  returned by value: nothing else ever refers to it.
\<close>

definition list_copy :: "pyval \<Rightarrow> pyval list py" where
  "list_copy l s =
     (case l of
        PyNone \<Rightarrow> (Inl TypeError, s)
      | PyStr x \<Rightarrow> (Inl OutOfModel, s)
      | PyRef a \<Rightarrow>
          (case deref s a of
             Some (OList xs) \<Rightarrow> (Inr xs, s)
           | Some (OMetric c d) \<Rightarrow> (Inl TypeError, s)
           | Some (OTracker t) \<Rightarrow> (Inl TypeError, s)
           | _ \<Rightarrow> (Inl OutOfModel, s)))"

text \<open>The elements that \<^verbatim>\<open>for x in v\<close> and \<^verbatim>\<open>list.extend(v)\<close> run through.\<close>

definition py_iter :: "pyval \<Rightarrow> pyval list py" where
  "py_iter l s =
     (case l of
        PyNone \<Rightarrow> (Inl TypeError, s)
      | PyStr x \<Rightarrow> (Inr (map (\<lambda>c. PyStr [c]) x), s)
      | PyRef a \<Rightarrow>
          (case deref s a of
             Some (OList xs) \<Rightarrow> (Inr xs, s)
           | Some (OMetric c d) \<Rightarrow> (Inl TypeError, s)
           | Some (OTracker t) \<Rightarrow> (Inl TypeError, s)
           | _ \<Rightarrow> (Inl OutOfModel, s)))"

subsection \<open>The backend variable\<close>

text \<open>
  Modelled from the spec: the constructor of \<^verbatim>\<open>backend.Variable\<close> and its method
  \<^verbatim>\<open>assign\<close> (see the record \<open>variable\<close> above). The constructor asks the initializer
  for the first value, which may raise.
\<close>

definition Variable_new :: "env \<Rightarrow> pyval \<Rightarrow> nat list \<Rightarrow> pyval \<Rightarrow> bool \<Rightarrow> pyval \<Rightarrow> addr py" where
  "Variable_new E initializer shape dtype trainable name s =
     (case initial_value E initializer shape dtype of
        Inl e \<Rightarrow> (Inl e, s)
      | Inr x \<Rightarrow>
          new_object (OVariable \<lparr>var_shape = shape, var_dtype = dtype,
            var_trainable = trainable, var_name = name, var_value = x\<rparr>) s)"

definition Variable_assign :: "pyval \<Rightarrow> int \<Rightarrow> unit py" where
  "Variable_assign v x s =
     (case v of
        PyRef a \<Rightarrow>
          (case deref s a of
             Some (OVariable var) \<Rightarrow> (Inr (), store a (OVariable (var\<lparr>var_value := x\<rparr>)) s)
           | _ \<Rightarrow> (Inl AttributeError, s))
      | _ \<Rightarrow> (Inl AttributeError, s))"

subsection \<open>The tracker\<close>

text \<open>
  Modelled from the spec: \<^verbatim>\<open>Tracker.__init__\<close> and \<^verbatim>\<open>Tracker.track\<close>. The spec says
  of the hook that it "classifies an arbitrary value and records it under a category if
  it matches a predicate", and that it "recognizes values that are state variables or
  Metric instances and registers them into the corresponding registry exactly once (by
  identity)". So \<open>track\<close> goes through the stores in order; at the first store whose
  predicate holds of the value it appends the value to the store's list unless the
  value's id is among the store's ids, records the id, and returns the value. A value
  that no predicate recognises is returned as it is.
\<close>

definition Tracker_new :: "(string \<times> cls_pred \<times> pyval) list \<Rightarrow> addr py" where
  "Tracker_new cfg =
     new_object (OTracker \<lparr>config = cfg,
       stored_ids = map_of (map (\<lambda>(n, p, l). (n, {})) cfg)\<rparr>)"

definition stored_ids_add :: "pyval \<Rightarrow> string \<Rightarrow> addr \<Rightarrow> unit py" where
  "stored_ids_add t n i s =
     (case t of
        PyRef a \<Rightarrow>
          (case deref s a of
             Some (OTracker T) \<Rightarrow>
               (case stored_ids T n of
                  None \<Rightarrow> (Inl KeyError, s)
                | Some ids \<Rightarrow>
                    (Inr (), store a (OTracker (T\<lparr>stored_ids := (stored_ids T)(n \<mapsto> insert i ids)\<rparr>)) s))
           | _ \<Rightarrow> (Inl AttributeError, s))
      | _ \<Rightarrow> (Inl AttributeError, s))"

definition stored_ids_get :: "pyval \<Rightarrow> string \<Rightarrow> addr set py" where
  "stored_ids_get t n s =
     (case t of
        PyRef a \<Rightarrow>
          (case deref s a of
             Some (OTracker T) \<Rightarrow>
               (case stored_ids T n of None \<Rightarrow> (Inl KeyError, s) | Some ids \<Rightarrow> (Inr ids, s))
           | _ \<Rightarrow> (Inl AttributeError, s))
      | _ \<Rightarrow> (Inl AttributeError, s))"

definition add_to_store :: "pyval \<Rightarrow> string \<Rightarrow> pyval \<Rightarrow> pyval \<Rightarrow> unit py" where
  "add_to_store t n l v =
     py_bind (list_append l v) (\<lambda>_.
     py_bind (py_id v) (\<lambda>i.
     stored_ids_add t n i))"

fun track_stores :: "pyval \<Rightarrow> (string \<times> cls_pred \<times> pyval) list \<Rightarrow> pyval \<Rightarrow> pyval py" where
  "track_stores t [] v = py_return v"
| "track_stores t ((n, p, l) # rest) v =
     (\<lambda>s. if is_instance p v s
          then py_bind (py_id v) (\<lambda>i.
               py_bind (stored_ids_get t n) (\<lambda>ids.
               if i \<notin> ids
               then py_bind (add_to_store t n l v) (\<lambda>_. py_return v)
               else py_return v)) s
          else track_stores t rest v s)"

definition track :: "pyval \<Rightarrow> pyval \<Rightarrow> pyval py" where
  "track t v s =
     (case t of
        PyRef a \<Rightarrow>
          (case deref s a of
             Some (OTracker T) \<Rightarrow> track_stores t (config T) v s
           | _ \<Rightarrow> (Inl AttributeError, s))
      | _ \<Rightarrow> (Inl AttributeError, s))"

section \<open>The class Metric\<close>

definition super_init_message :: string where
  "super_init_message =
     ''You forgot to call `super().__init__()` in the `__init__()` method. Go add it!''"

definition check_super_called :: "addr \<Rightarrow> unit py" where
  "check_super_called self s =
     (if \<not> hasattr (PyRef self) ''_tracker'' s
      then (Inl (RuntimeError super_init_message), s)
      else (Inr (), s))"

definition Metric_setattr :: "addr \<Rightarrow> string \<Rightarrow> pyval \<Rightarrow> unit py" where
  "Metric_setattr self n v s =
     (if hasattr (PyRef self) ''_tracker'' s
      then py_bind (getattr (PyRef self) ''_tracker'') (\<lambda>t.
           py_bind (track t v) (\<lambda>v'.
           object_setattr self n v')) s
      else object_setattr self n v s)"

definition name_or_auto_name :: "env \<Rightarrow> addr \<Rightarrow> pyval \<Rightarrow> pyval py" where
  "name_or_auto_name E self name =
     py_bind (py_bool name) (\<lambda>b.
     if b then py_return name
     else py_bind (class_name self) (\<lambda>c s.
            (Inr (PyStr (auto_name E c (uids s))), s\<lparr>uids := Suc (uids s)\<rparr>)))"

definition Metric_init :: "env \<Rightarrow> addr \<Rightarrow> pyval \<Rightarrow> pyval \<Rightarrow> unit py" where
  "Metric_init E self dtype name =
     py_bind (name_or_auto_name E self name) (\<lambda>n.
     py_bind (Metric_setattr self ''name'' n) (\<lambda>_.
     py_bind (Metric_setattr self ''_dtype'' dtype) (\<lambda>_.
     py_bind (new_object (OList [])) (\<lambda>lm.
     py_bind (Metric_setattr self ''_metrics'' (PyRef lm)) (\<lambda>_.
     py_bind (new_object (OList [])) (\<lambda>lv.
     py_bind (Metric_setattr self ''_variables'' (PyRef lv)) (\<lambda>_.
     py_bind (getattr (PyRef self) ''_variables'') (\<lambda>vs.
     py_bind (getattr (PyRef self) ''_metrics'') (\<lambda>ms.
     py_bind (Tracker_new [(''variables'', IsVariable, vs), (''metrics'', IsMetric, ms)]) (\<lambda>t.
     Metric_setattr self ''_tracker'' (PyRef t)))))))))))"


text \<open>
  The property \<^verbatim>\<open>variables\<close>: a copy of \<^verbatim>\<open>self._variables\<close>, extended in turn by
  \<^verbatim>\<open>metric._variables\<close> for every \<^verbatim>\<open>metric\<close> in \<^verbatim>\<open>self._metrics\<close>.
\<close>

fun extend_with_metrics :: "pyval list \<Rightarrow> pyval list \<Rightarrow> pyval list py" where
  "extend_with_metrics variables [] = py_return variables"
| "extend_with_metrics variables (metric # rest) =
     py_bind (getattr metric ''_variables'') (\<lambda>mv.
     py_bind (py_iter mv) (\<lambda>xs.
     extend_with_metrics (variables @ xs) rest))"

definition Metric_variables :: "addr \<Rightarrow> pyval list py" where
  "Metric_variables self =
     py_bind (getattr (PyRef self) ''_variables'') (\<lambda>own.
     py_bind (list_copy own) (\<lambda>variables.
     py_bind (getattr (PyRef self) ''_metrics'') (\<lambda>ms.
     py_bind (py_iter ms) (\<lambda>metrics.
     extend_with_metrics variables metrics))))"

text \<open>\<^verbatim>\<open>reset_state\<close>: \<^verbatim>\<open>for v in self.variables: v.assign(0)\<close>.\<close>

fun assign_zero_all :: "pyval list \<Rightarrow> unit py" where
  "assign_zero_all [] = py_return ()"
| "assign_zero_all (v # vs) = py_bind (Variable_assign v 0) (\<lambda>_. assign_zero_all vs)"

definition Metric_reset_state :: "addr \<Rightarrow> unit py" where
  "Metric_reset_state self = py_bind (Metric_variables self) assign_zero_all"

text \<open>
  The bodies of \<^verbatim>\<open>update_state\<close> and \<^verbatim>\<open>result\<close> in the base class. The arguments
  \<^verbatim>\<open>*args, **kwargs\<close> are not looked at.
\<close>

definition Metric_update_state :: "addr \<Rightarrow> 'a \<Rightarrow> unit py" where
  "Metric_update_state self args = py_raise NotImplementedError"

definition Metric_result :: "addr \<Rightarrow> pyval py" where
  "Metric_result self = py_raise NotImplementedError"


definition Metric_add_variable ::
    "env \<Rightarrow> addr \<Rightarrow> nat list \<Rightarrow> pyval \<Rightarrow> pyval \<Rightarrow> pyval \<Rightarrow> pyval py" where
  "Metric_add_variable E self shape initializer dtype name =
     py_bind (check_super_called self) (\<lambda>_.
     py_bind (py_lift (initializers_get E initializer)) (\<lambda>initializer'.
     py_bind (Variable_new E initializer' shape dtype False name) (\<lambda>variable.
     py_bind (getattr (PyRef self) ''_variables'') (\<lambda>vs.
     py_bind (list_append vs (PyRef variable)) (\<lambda>_.
     py_bind (getattr (PyRef self) ''_tracker'') (\<lambda>t.
     py_bind (stored_ids_add t ''variables'' variable) (\<lambda>_.
     py_return (PyRef variable))))))))"

text \<open>
  \<^verbatim>\<open>add_weight(*args, **kwargs)\<close> hands its arguments on to \<^verbatim>\<open>add_variable\<close>, where
  Python binds them to the four parameters.
\<close>

definition Metric_add_weight ::
    "env \<Rightarrow> addr \<Rightarrow> nat list \<Rightarrow> pyval \<Rightarrow> pyval \<Rightarrow> pyval \<Rightarrow> pyval py" where
  "Metric_add_weight E self shape initializer dtype name =
     Metric_add_variable E self shape initializer dtype name"

text \<open>
  A subclass overrides \<^verbatim>\<open>update_state\<close> and \<^verbatim>\<open>result\<close>; \<^verbatim>\<open>__call__\<close> reaches them
  through \<^verbatim>\<open>self\<close>. The methods that the class of \<^verbatim>\<open>self\<close> provides are passed as a
  record; \<open>Metric_methods\<close> are those of the base class.
\<close>

record 'a methods =
  update_state :: "addr \<Rightarrow> 'a \<Rightarrow> unit py"
  result :: "addr \<Rightarrow> pyval py"

definition Metric_methods :: "'a methods" where
  "Metric_methods = \<lparr>update_state = Metric_update_state, result = Metric_result\<rparr>"

definition Metric_call :: "'a methods \<Rightarrow> addr \<Rightarrow> 'a \<Rightarrow> pyval py" where
  "Metric_call M self args =
     py_bind (check_super_called self) (\<lambda>_.
     py_bind (update_state M self args) (\<lambda>_.
     result M self))"




section \<open>Observations and the state of a constructed metric\<close>

text \<open>
  What the two registries of a metric hold, the tracker it refers to, and the content of
  a variable. Each is \<open>None\<close> when the attribute is missing or bound to something else.
\<close>

definition list_at :: "state \<Rightarrow> pyval option \<Rightarrow> pyval list option" where
  "list_at s v =
     (case v of
        Some (PyRef l) \<Rightarrow> (case deref s l of Some (OList xs) \<Rightarrow> Some xs | _ \<Rightarrow> None)
      | _ \<Rightarrow> None)"

definition own_variables :: "state \<Rightarrow> pyval \<Rightarrow> pyval list option" where
  "own_variables s m = list_at s (attr s m ''_variables'')"

definition own_metrics :: "state \<Rightarrow> pyval \<Rightarrow> pyval list option" where
  "own_metrics s m = list_at s (attr s m ''_metrics'')"

definition tracker_of :: "state \<Rightarrow> pyval \<Rightarrow> tracker option" where
  "tracker_of s m =
     (case attr s m ''_tracker'' of
        Some (PyRef t) \<Rightarrow> (case deref s t of Some (OTracker T) \<Rightarrow> Some T | _ \<Rightarrow> None)
      | _ \<Rightarrow> None)"

definition variable_at :: "state \<Rightarrow> pyval \<Rightarrow> variable option" where
  "variable_at s v =
     (case v of
        PyRef a \<Rightarrow> (case deref s a of Some (OVariable x) \<Rightarrow> Some x | _ \<Rightarrow> None)
      | _ \<Rightarrow> None)"

definition value_of :: "state \<Rightarrow> pyval \<Rightarrow> int option" where
  "value_of s v = map_option var_value (variable_at s v)"

text \<open>
  The state in which \<^verbatim>\<open>Metric.__init__\<close> leaves an instance, and which
  \<^verbatim>\<open>add_variable\<close> and tracked attribute assignment keep: the two registries are two
  different lists, the tracker's stores are these very lists, the registries hold
  variables and metrics without repetition, and the tracker's ids are exactly the ids of
  what the registries hold.
\<close>

definition registry_ok :: "state \<Rightarrow> cls_pred \<Rightarrow> pyval list \<Rightarrow> addr set option \<Rightarrow> bool" where
  "registry_ok s p xs ids =
     (case ids of
        None \<Rightarrow> False
      | Some S \<Rightarrow> distinct xs \<and> set xs = PyRef ` S \<and> list_all (\<lambda>x. is_instance p x s) xs)"

definition constructed :: "state \<Rightarrow> addr \<Rightarrow> bool" where
  "constructed s m =
     (case (attr s (PyRef m) ''_variables'', attr s (PyRef m) ''_metrics'',
            own_variables s (PyRef m), own_metrics s (PyRef m), tracker_of s (PyRef m)) of
        (Some lv, Some lm, Some vs, Some ms, Some T) \<Rightarrow>
           lv \<noteq> lm
         \<and> config T = [(''variables'', IsVariable, lv), (''metrics'', IsMetric, lm)]
         \<and> registry_ok s IsVariable vs (stored_ids T ''variables'')
         \<and> registry_ok s IsMetric ms (stored_ids T ''metrics'')
         \<and> attr s (PyRef m) ''name'' \<noteq> None
         \<and> attr s (PyRef m) ''_dtype'' \<noteq> None
      | _ \<Rightarrow> False)"

definition is_constructed_metric :: "state \<Rightarrow> pyval \<Rightarrow> bool" where
  "is_constructed_metric s c = (case c of PyRef a \<Rightarrow> constructed s a | _ \<Rightarrow> False)"

definition children_constructed :: "state \<Rightarrow> addr \<Rightarrow> bool" where
  "children_constructed s m =
     (case own_metrics s (PyRef m) of
        Some ms \<Rightarrow> list_all (is_constructed_metric s) ms
      | None \<Rightarrow> False)"

text \<open>
  The spec's wording of the call entry point: \<^verbatim>\<open>update_state(inputs...)\<close> followed by
  \<^verbatim>\<open>result()\<close>.
\<close>

definition invoke_spec :: "'a methods \<Rightarrow> addr \<Rightarrow> 'a \<Rightarrow> pyval py" where
  "invoke_spec M self args = py_bind (update_state M self args) (\<lambda>_. result M self)"

text \<open>The variable that \<^verbatim>\<open>add_variable\<close> creates: \<^verbatim>\<open>trainable=False\<close>.\<close>

definition added_variable :: "nat list \<Rightarrow> pyval \<Rightarrow> pyval \<Rightarrow> int \<Rightarrow> variable" where
  "added_variable shape dtype name x =
     \<lparr>var_shape = shape, var_dtype = dtype, var_trainable = False, var_name = name, var_value = x\<rparr>"

text \<open>
  What \<^verbatim>\<open>assign(0)\<close> makes of a variable, and the relation between two stores
  that differ at most in the content of variables.
\<close>

definition zeroed :: "obj \<Rightarrow> obj" where
  "zeroed ob = (case ob of OVariable x \<Rightarrow> OVariable (x\<lparr>var_value := 0\<rparr>) | _ \<Rightarrow> ob)"

definition same_but_values :: "state \<Rightarrow> state \<Rightarrow> bool" where
  "same_but_values s s' \<longleftrightarrow>
     length (heap s') = length (heap s)
   \<and> (\<forall>a<length (heap s).
         case heap s ! a of
           OVariable x \<Rightarrow> (\<exists>y. heap s' ! a = OVariable y)
         | ob \<Rightarrow> heap s' ! a = ob)"





section \<open>Example instances\<close>

text \<open>
  A backend in which the initializer \<^verbatim>\<open>'zeros'\<close> fills a variable with 0 and
  \<^verbatim>\<open>'ones'\<close> with 1, and a naming utility that appends one mark per name handed out.
\<close>

definition example_env :: env where
  "example_env =
     \<lparr>auto_name = (\<lambda>c n. c @ ''_'' @ replicate n CHR ''i''),
      initializers_get =
        (\<lambda>v. if v = PyStr ''zeros'' \<or> v = PyStr ''ones'' then Inr v else Inl ValueError),
      initial_value = (\<lambda>i shape dtype. if i = PyStr ''ones'' then Inr 1 else Inr 0)\<rparr>"

definition empty_state :: state where
  "empty_state = \<lparr>heap = [], uids = 0\<rparr>"

definition after :: "'a py \<Rightarrow> state \<Rightarrow> state" where
  "after m s = snd (m s)"

text \<open>
  The counter of the spec's example scenario, a subclass with one scalar variable:
  \<^verbatim>\<open>
  class Counter(Metric):
      def __init__(self):
          super().__init__()
          self.total = self.add_variable(shape=(), initializer='zeros', name='total')
      def update_state(self, n):
          self.total.assign(self.total + n)
      def result(self):
          return self.total
  \<close>
\<close>

definition Variable_read :: "pyval \<Rightarrow> int py" where
  "Variable_read v s =
     (case value_of s v of Some x \<Rightarrow> (Inr x, s) | None \<Rightarrow> (Inl AttributeError, s))"

definition Counter_new :: "env \<Rightarrow> addr py" where
  "Counter_new E =
     py_bind (new_object (OMetric ''Counter'' Map.empty)) (\<lambda>self.
     py_bind (Metric_init E self PyNone PyNone) (\<lambda>_.
     py_bind (Metric_add_variable E self [] (PyStr ''zeros'') PyNone (PyStr ''total'')) (\<lambda>v.
     py_bind (Metric_setattr self ''total'' v) (\<lambda>_.
     py_return self))))"

definition Counter_update_state :: "addr \<Rightarrow> int \<Rightarrow> unit py" where
  "Counter_update_state self n =
     py_bind (getattr (PyRef self) ''total'') (\<lambda>v.
     py_bind (Variable_read v) (\<lambda>x.
     Variable_assign v (x + n)))"

definition Counter_result :: "addr \<Rightarrow> pyval py" where
  "Counter_result self = getattr (PyRef self) ''total''"

definition Counter_methods :: "int methods" where
  "Counter_methods = \<lparr>update_state = Counter_update_state, result = Counter_result\<rparr>"

text \<open>One counter (objects 0 to 4, its variable is object 4), after a call with 5.\<close>

definition counter_state :: state where
  "counter_state = after (Counter_new example_env) empty_state"

definition counted_state :: state where
  "counted_state = after (Metric_call Counter_methods 0 5) counter_state"

text \<open>
  A subclass whose \<^verbatim>\<open>__init__\<close> does not call \<^verbatim>\<open>super().__init__()\<close>: the new
  instance has an empty dictionary.
\<close>

definition skipped_state :: state where
  "skipped_state = after (new_object (OMetric ''Forgetful'' Map.empty)) empty_state"

text \<open>
  A chain of three counters: \<^verbatim>\<open>top\<close> (object 0, variable 4), \<^verbatim>\<open>child\<close> (object 5,
  variable 9) and \<^verbatim>\<open>grandchild\<close> (object 10, variable 14), each called once, then
  \<^verbatim>\<open>child.inner = grandchild\<close> and \<^verbatim>\<open>top.inner = child\<close>.
\<close>

definition chain_state :: state where
  "chain_state =
     after (Metric_setattr 0 ''inner'' (PyRef 5))
    (after (Metric_setattr 5 ''inner'' (PyRef 10))
    (after (Metric_call Counter_methods 10 7)
    (after (Metric_call Counter_methods 5 3)
    (after (Metric_call Counter_methods 0 2)
    (after (Counter_new example_env)
    (after (Counter_new example_env)
    (after (Counter_new example_env) empty_state)))))))"


text \<open>
  The chain of three counters after \<^verbatim>\<open>top.a = grandchild.total\<close>: the grandchild's
  variable is now also in the own registry of \<^verbatim>\<open>top\<close>.
\<close>

definition shared_grand_state :: state where
  "shared_grand_state = after (Metric_setattr 0 ''a'' (PyRef 14)) chain_state"



section \<open>Basic facts about the store\<close>

lemma deref_Some_iff: "deref s a = Some ob \<longleftrightarrow> a < length (heap s) \<and> heap s ! a = ob"
  by (auto simp: deref_def)

lemma list_at_Some_iff:
  "list_at s v = Some xs \<longleftrightarrow> (\<exists>l. v = Some (PyRef l) \<and> deref s l = Some (OList xs))"
  by (auto simp: list_at_def split: option.splits pyval.splits obj.splits)

lemma attr_Some_iff:
  "attr s v n = Some x \<longleftrightarrow> (\<exists>a c d. v = PyRef a \<and> deref s a = Some (OMetric c d) \<and> d n = Some x)"
  by (auto simp: attr_def split: option.splits pyval.splits obj.splits)

lemma tracker_of_Some_iff:
  "tracker_of s v = Some T \<longleftrightarrow>
     (\<exists>t. attr s v ''_tracker'' = Some (PyRef t) \<and> deref s t = Some (OTracker T))"
  by (auto simp: tracker_of_def split: option.splits pyval.splits obj.splits)

lemma registry_ok_iff:
  "registry_ok s p xs ids \<longleftrightarrow>
     (\<exists>S. ids = Some S \<and> distinct xs \<and> set xs = PyRef ` S \<and> (\<forall>x\<in>set xs. is_instance p x s))"
  by (auto simp: registry_ok_def list_all_iff split: option.splits)

lemma constructed_iff:
  "constructed s m \<longleftrightarrow>
     (\<exists>c d lv lm t vs ms T.
        deref s m = Some (OMetric c d)
      \<and> d ''_variables'' = Some (PyRef lv) \<and> d ''_metrics'' = Some (PyRef lm)
      \<and> d ''_tracker'' = Some (PyRef t)
      \<and> d ''name'' \<noteq> None \<and> d ''_dtype'' \<noteq> None
      \<and> deref s lv = Some (OList vs) \<and> deref s lm = Some (OList ms)
      \<and> deref s t = Some (OTracker T)
      \<and> lv \<noteq> lm
      \<and> config T = [(''variables'', IsVariable, PyRef lv), (''metrics'', IsMetric, PyRef lm)]
      \<and> registry_ok s IsVariable vs (stored_ids T ''variables'')
      \<and> registry_ok s IsMetric ms (stored_ids T ''metrics''))"
  (is "?L \<longleftrightarrow> ?R")
proof
  assume ?L
  then show ?R
    unfolding constructed_def own_variables_def own_metrics_def
    by (auto simp: list_at_Some_iff attr_Some_iff tracker_of_Some_iff split: option.splits)
next
  assume ?R
  then obtain c d lv lm t vs ms T where h:
    "deref s m = Some (OMetric c d)"
    "d ''_variables'' = Some (PyRef lv)" "d ''_metrics'' = Some (PyRef lm)"
    "d ''_tracker'' = Some (PyRef t)"
    "d ''name'' \<noteq> None" "d ''_dtype'' \<noteq> None"
    "deref s lv = Some (OList vs)" "deref s lm = Some (OList ms)"
    "deref s t = Some (OTracker T)"
    "lv \<noteq> lm"
    "config T = [(''variables'', IsVariable, PyRef lv), (''metrics'', IsMetric, PyRef lm)]"
    "registry_ok s IsVariable vs (stored_ids T ''variables'')"
    "registry_ok s IsMetric ms (stored_ids T ''metrics'')"
    by blast
  then show ?L
    unfolding constructed_def own_variables_def own_metrics_def
    by (simp add: attr_def list_at_def tracker_of_def)
qed

lemmas py_defs = py_bind_def py_return_def py_raise_def py_lift_def

lemma add_variable_effect:
  assumes m: "deref s m = Some (OMetric c d)"
    and d: "d ''_variables'' = Some (PyRef lv)" "d ''_tracker'' = Some (PyRef t)"
    and lv: "deref s lv = Some (OList vs)"
    and t: "deref s t = Some (OTracker T)"
    and ids: "stored_ids T ''variables'' = Some S"
    and i: "initializers_get E initializer = Inr i'"
    and x: "initial_value E i' shape dtype = Inr x"
  shows "Metric_add_variable E m shape initializer dtype name s =
           (Inr (PyRef (length (heap s))),
            s\<lparr>heap := (heap s @ [OVariable (added_variable shape dtype name x)])
                 [lv := OList (vs @ [PyRef (length (heap s))]),
                  t := OTracker (T\<lparr>stored_ids := (stored_ids T)(''variables'' \<mapsto> insert (length (heap s)) S)\<rparr>)]\<rparr>)"
proof -
  have ne: "lv \<noteq> t" "lv \<noteq> m" "t \<noteq> m"
    using m lv t by auto
  have m': "m < length (heap s)" "heap s ! m = OMetric c d"
    and lv': "lv < length (heap s)" "heap s ! lv = OList vs"
    and t': "t < length (heap s)" "heap s ! t = OTracker T"
    using m lv t by (auto simp: deref_Some_iff)
  show ?thesis
    using m' lv' t' d ids i x ne
    by (simp add: Metric_add_variable_def check_super_called_def hasattr_def attr_def getattr_def
        py_defs Variable_new_def new_object_def list_append_def stored_ids_add_def
        deref_def store_def added_variable_def nth_append)
qed

lemma add_variable_success:
  assumes "Metric_add_variable E m shape initializer dtype name s = (Inr r, s')"
  shows "\<exists>i' x. initializers_get E initializer = Inr i' \<and> initial_value E i' shape dtype = Inr x"
  using assms
  by (auto simp: Metric_add_variable_def py_defs Variable_new_def check_super_called_def
      split: if_splits sum.splits prod.splits)

lemma is_instance_iff:
  "is_instance p v s \<longleftrightarrow>
     (\<exists>a. v = PyRef a \<and> a < length (heap s) \<and>
        ((\<exists>x. heap s ! a = OVariable x \<and> p = IsVariable)
         \<or> (\<exists>c d. heap s ! a = OMetric c d \<and> p = IsMetric)))"
  by (auto simp: is_instance_def deref_def split: pyval.splits obj.splits)

text \<open>Objects that are variables or metrics keep their class when lists and trackers change.\<close>

lemma is_instance_frame:
  assumes "is_instance p v s"
    and "length (heap s) \<le> length (heap s')"
    and "\<And>a. a < length (heap s) \<Longrightarrow>
            (\<forall>xs. heap s ! a \<noteq> OList xs) \<Longrightarrow> (\<forall>T. heap s ! a \<noteq> OTracker T) \<Longrightarrow>
            heap s' ! a = heap s ! a"
  shows "is_instance p v s'"
proof -
  from assms(1) obtain a where a: "v = PyRef a" "a < length (heap s)"
    "(\<exists>x. heap s ! a = OVariable x \<and> p = IsVariable)
         \<or> (\<exists>c d. heap s ! a = OMetric c d \<and> p = IsMetric)"
    unfolding is_instance_iff by blast
  then have "heap s' ! a = heap s ! a"
    using assms(3) [of a] by auto
  with a assms(2) show ?thesis
    unfolding is_instance_iff by auto
qed

lemma registry_ok_append:
  assumes ok: "registry_ok s p xs (Some S)"
    and new: "is_instance p (PyRef n) s'" "n \<notin> S"
    and len: "length (heap s) \<le> length (heap s')"
    and frame: "\<And>a. a < length (heap s) \<Longrightarrow>
            (\<forall>xs. heap s ! a \<noteq> OList xs) \<Longrightarrow> (\<forall>T. heap s ! a \<noteq> OTracker T) \<Longrightarrow>
            heap s' ! a = heap s ! a"
  shows "registry_ok s' p (xs @ [PyRef n]) (Some (insert n S))"
proof -
  from ok have d: "distinct xs" and e: "set xs = PyRef ` S"
    and i: "\<forall>x\<in>set xs. is_instance p x s"
    by (auto simp: registry_ok_iff)
  have "\<forall>x\<in>set xs. is_instance p x s'"
    using i is_instance_frame [OF _ len frame] by blast
  moreover have "PyRef n \<notin> set xs"
    using e new(2) by auto
  ultimately show ?thesis
    using d e new(1) by (auto simp: registry_ok_iff)
qed

lemma registry_ok_frame:
  assumes ok: "registry_ok s p xs ids"
    and len: "length (heap s) \<le> length (heap s')"
    and frame: "\<And>a. a < length (heap s) \<Longrightarrow>
            (\<forall>xs. heap s ! a \<noteq> OList xs) \<Longrightarrow> (\<forall>T. heap s ! a \<noteq> OTracker T) \<Longrightarrow>
            heap s' ! a = heap s ! a"
  shows "registry_ok s' p xs ids"
proof -
  from ok obtain S where S: "ids = Some S" "distinct xs" "set xs = PyRef ` S"
    and i: "\<forall>x\<in>set xs. is_instance p x s"
    unfolding registry_ok_iff by blast
  have "\<forall>x\<in>set xs. is_instance p x s'"
  proof
    fix x assume "x \<in> set xs"
    with i have "is_instance p x s" by blast
    then show "is_instance p x s'"
      by (rule is_instance_frame [OF _ len frame])
  qed
  with S show ?thesis
    unfolding registry_ok_iff by blast
qed

lemma registry_ok_bound:
  assumes "registry_ok s p xs (Some S)" and "a \<in> S"
  shows "a < length (heap s)"
proof -
  from assms(1) have e: "set xs = PyRef ` S" and i: "\<forall>x\<in>set xs. is_instance p x s"
    unfolding registry_ok_iff by auto
  from e assms(2) have "PyRef a \<in> set xs" by blast
  with i have "is_instance p (PyRef a) s" by blast
  then show ?thesis
    unfolding is_instance_iff by blast
qed

lemma own_variables_iter:
  assumes "own_variables s c = Some xs"
  shows "py_bind (getattr c ''_variables'') (\<lambda>mv. py_bind (py_iter mv) f) s = f xs s"
proof -
  from assms obtain l where l: "attr s c ''_variables'' = Some (PyRef l)"
    "deref s l = Some (OList xs)"
    by (auto simp: own_variables_def list_at_Some_iff)
  then show ?thesis
    by (simp add: py_bind_def getattr_def py_iter_def)
qed

lemma extend_with_metrics_those:
  "those (map (own_variables s) ms) = Some vss \<Longrightarrow>
     extend_with_metrics acc ms s = (Inr (acc @ concat vss), s)"
proof (induction ms arbitrary: acc vss)
  case Nil
  then show ?case by (simp add: py_return_def)
next
  case (Cons c ms)
  from Cons.prems obtain xs rest where xs: "own_variables s c = Some xs"
    and rest: "those (map (own_variables s) ms) = Some rest" and vss: "vss = xs # rest"
    by (auto split: option.splits)
  show ?case
    using Cons.IH [OF rest, of "acc @ xs"]
    by (simp add: vss own_variables_iter [OF xs])
qed

section \<open>Facts about variables, resetting and the registries\<close>

lemma variable_at_Some_iff:
  "variable_at s v = Some x \<longleftrightarrow> (\<exists>a. v = PyRef a \<and> a < length (heap s) \<and> heap s ! a = OVariable x)"
  by (auto simp: variable_at_def deref_def split: pyval.splits obj.splits)

lemma Variable_assign_effect:
  assumes "a < length (heap s)" and "heap s ! a = OVariable x"
  shows "Variable_assign (PyRef a) n s = (Inr (), s\<lparr>heap := (heap s)[a := OVariable (x\<lparr>var_value := n\<rparr>)]\<rparr>)"
  using assms by (simp add: Variable_assign_def deref_def store_def)

lemma assign_zero_all_effect:
  assumes "\<forall>v\<in>set vs. variable_at s v \<noteq> None"
  shows "\<exists>s'. assign_zero_all vs s = (Inr (), s')
           \<and> length (heap s') = length (heap s) \<and> uids s' = uids s
           \<and> (\<forall>a<length (heap s).
                 heap s' ! a = (if PyRef a \<in> set vs then zeroed (heap s ! a) else heap s ! a))"
  using assms
proof (induction vs arbitrary: s)
  case Nil
  then show ?case by (simp add: py_return_def)
next
  case (Cons v vs)
  from Cons.prems obtain x where "variable_at s v = Some x"
    by auto
  then obtain a where a: "v = PyRef a" "a < length (heap s)" "heap s ! a = OVariable x"
    unfolding variable_at_Some_iff by blast
  let ?s1 = "s\<lparr>heap := (heap s)[a := OVariable (x\<lparr>var_value := 0\<rparr>)]\<rparr>"
  have step: "Variable_assign v 0 s = (Inr (), ?s1)"
    using Variable_assign_effect [OF a(2) a(3), of 0] a(1) by simp
  have "\<forall>w\<in>set vs. variable_at ?s1 w \<noteq> None"
  proof
    fix w assume "w \<in> set vs"
    with Cons.prems obtain y where "variable_at s w = Some y" by auto
    then obtain b where b: "w = PyRef b" "b < length (heap s)" "heap s ! b = OVariable y"
      unfolding variable_at_Some_iff by blast
    show "variable_at ?s1 w \<noteq> None"
      using a b by (cases "b = a") (simp_all add: variable_at_def deref_def)
  qed
  from Cons.IH [OF this] obtain s' where s':
    "assign_zero_all vs ?s1 = (Inr (), s')"
    "length (heap s') = length (heap ?s1)" "uids s' = uids ?s1"
    "\<forall>b<length (heap ?s1).
        heap s' ! b = (if PyRef b \<in> set vs then zeroed (heap ?s1 ! b) else heap ?s1 ! b)"
    by blast
  have run: "assign_zero_all (v # vs) s = (Inr (), s')"
    using step s'(1) by (simp add: py_bind_def)
  have "heap s' ! b = (if PyRef b \<in> set (v # vs) then zeroed (heap s ! b) else heap s ! b)"
    if "b < length (heap s)" for b
  proof (cases "b = a")
    case True
    then show ?thesis
      using s'(4) a that by (simp add: zeroed_def)
  next
    case False
    then show ?thesis
      using s'(4) a that by simp
  qed
  then show ?case
    using run s'(2,3) by simp
qed

lemma same_but_values_deref:
  assumes "same_but_values s s'"
  shows "deref s' a = (case deref s a of
                         Some (OVariable x) \<Rightarrow> Some (OVariable (the (variable_at s' (PyRef a))))
                       | r \<Rightarrow> r)"
proof (cases "a < length (heap s)")
  case False
  with assms show ?thesis
    by (simp add: same_but_values_def deref_def)
next
  case True
  with assms have l: "a < length (heap s')"
    and c: "case heap s ! a of OVariable x \<Rightarrow> (\<exists>y. heap s' ! a = OVariable y)
              | ob \<Rightarrow> heap s' ! a = ob"
    by (simp_all add: same_but_values_def)
  show ?thesis
    using True l c
    by (cases "heap s ! a") (auto simp: deref_def variable_at_def)
qed

lemma same_but_values_attr:
  assumes "same_but_values s s'"
  shows "attr s' v n = attr s v n"
  using same_but_values_deref [OF assms]
  by (cases v) (auto simp: attr_def split: option.splits obj.splits)

lemma same_but_values_list_at:
  assumes "same_but_values s s'"
  shows "list_at s' v = list_at s v"
  using same_but_values_deref [OF assms]
  by (auto simp: list_at_def split: option.splits obj.splits pyval.splits)

lemma same_but_values_own:
  assumes "same_but_values s s'"
  shows "own_variables s' v = own_variables s v" and "own_metrics s' v = own_metrics s v"
  by (simp_all add: own_variables_def own_metrics_def
      same_but_values_attr [OF assms] same_but_values_list_at [OF assms])

lemma same_but_values_tracker_of:
  assumes "same_but_values s s'"
  shows "tracker_of s' v = tracker_of s v"
  using same_but_values_deref [OF assms]
  by (auto simp: tracker_of_def same_but_values_attr [OF assms]
      split: option.splits obj.splits pyval.splits)

lemma same_but_values_is_instance:
  assumes "same_but_values s s'"
  shows "is_instance p v s' = is_instance p v s"
  using same_but_values_deref [OF assms]
  by (cases v) (auto simp: is_instance_def split: option.splits obj.splits)

lemma same_but_values_registry_ok:
  assumes "same_but_values s s'"
  shows "registry_ok s' p xs ids = registry_ok s p xs ids"
  by (cases ids) (simp_all add: registry_ok_def same_but_values_is_instance [OF assms])

lemma same_but_values_constructed:
  assumes "same_but_values s s'"
  shows "constructed s' m = constructed s m"
  by (simp add: constructed_def same_but_values_attr [OF assms] same_but_values_own [OF assms]
      same_but_values_tracker_of [OF assms] same_but_values_registry_ok [OF assms]
      split: option.splits prod.splits)

lemma Metric_variables_those:
  assumes "own_variables s (PyRef m) = Some vs"
    and "own_metrics s (PyRef m) = Some ms"
    and "those (map (own_variables s) ms) = Some vss"
  shows "Metric_variables m s = (Inr (vs @ concat vss), s)"
proof -
  from assms(1) obtain lv where lv: "attr s (PyRef m) ''_variables'' = Some (PyRef lv)"
    "deref s lv = Some (OList vs)"
    by (auto simp: own_variables_def list_at_Some_iff)
  from assms(2) obtain lm where lm: "attr s (PyRef m) ''_metrics'' = Some (PyRef lm)"
    "deref s lm = Some (OList ms)"
    by (auto simp: own_metrics_def list_at_Some_iff)
  show ?thesis
    using lv lm extend_with_metrics_those [OF assms(3), of vs]
    by (simp add: Metric_variables_def py_bind_def getattr_def list_copy_def py_iter_def)
qed

lemma constructed_own_variables:
  assumes "constructed s m"
  shows "\<exists>vs. own_variables s (PyRef m) = Some vs \<and> (\<forall>v\<in>set vs. is_instance IsVariable v s)"
proof -
  from assms obtain c d lv lm t vs ms T where h:
    "deref s m = Some (OMetric c d)"
    "d ''_variables'' = Some (PyRef lv)" "d ''_metrics'' = Some (PyRef lm)"
    "d ''_tracker'' = Some (PyRef t)"
    "d ''name'' \<noteq> None" "d ''_dtype'' \<noteq> None"
    "deref s lv = Some (OList vs)" "deref s lm = Some (OList ms)"
    "deref s t = Some (OTracker T)"
    "lv \<noteq> lm"
    "config T = [(''variables'', IsVariable, PyRef lv), (''metrics'', IsMetric, PyRef lm)]"
    "registry_ok s IsVariable vs (stored_ids T ''variables'')"
    "registry_ok s IsMetric ms (stored_ids T ''metrics'')"
    unfolding constructed_iff by blast
  from h(1,2,7) have "own_variables s (PyRef m) = Some vs"
    by (simp add: own_variables_def attr_def list_at_def)
  moreover from h(12) have "\<forall>v\<in>set vs. is_instance IsVariable v s"
    unfolding registry_ok_iff by blast
  ultimately show ?thesis by blast
qed

lemma constructed_own_metrics:
  assumes "constructed s m"
  shows "\<exists>ms. own_metrics s (PyRef m) = Some ms"
proof -
  from assms obtain c d lv lm t vs ms T where h:
    "deref s m = Some (OMetric c d)"
    "d ''_variables'' = Some (PyRef lv)" "d ''_metrics'' = Some (PyRef lm)"
    "d ''_tracker'' = Some (PyRef t)"
    "d ''name'' \<noteq> None" "d ''_dtype'' \<noteq> None"
    "deref s lv = Some (OList vs)" "deref s lm = Some (OList ms)"
    "deref s t = Some (OTracker T)"
    "lv \<noteq> lm"
    "config T = [(''variables'', IsVariable, PyRef lv), (''metrics'', IsMetric, PyRef lm)]"
    "registry_ok s IsVariable vs (stored_ids T ''variables'')"
    "registry_ok s IsMetric ms (stored_ids T ''metrics'')"
    unfolding constructed_iff by blast
  from h(1,3,8) have "own_metrics s (PyRef m) = Some ms"
    by (simp add: own_metrics_def attr_def list_at_def)
  then show ?thesis by blast
qed

lemma children_own_variables:
  assumes "list_all (is_constructed_metric s) ms"
  shows "\<exists>vss. those (map (own_variables s) ms) = Some vss
             \<and> (\<forall>v\<in>set (concat vss). is_instance IsVariable v s)"
  using assms
proof (induction ms)
  case Nil
  then show ?case by simp
next
  case (Cons c ms)
  from Cons.prems have c: "is_constructed_metric s c" and rest: "list_all (is_constructed_metric s) ms"
    by simp_all
  from c obtain a where a: "c = PyRef a" "constructed s a"
    by (cases c) (simp_all add: is_constructed_metric_def)
  from constructed_own_variables [OF a(2)] a(1) obtain xs where
    xs: "own_variables s c = Some xs" "\<forall>v\<in>set xs. is_instance IsVariable v s"
    by blast
  from Cons.IH [OF rest] obtain vss where
    vss: "those (map (own_variables s) ms) = Some vss"
    "\<forall>v\<in>set (concat vss). is_instance IsVariable v s"
    by blast
  have "those (map (own_variables s) (c # ms)) = Some (xs # vss)"
    using xs(1) vss(1) by simp
  moreover have "\<forall>v\<in>set (concat (xs # vss)). is_instance IsVariable v s"
    using xs(2) vss(2) by auto
  ultimately show ?case by blast
qed

lemma constructed_variables:
  assumes "constructed s m" and "children_constructed s m"
  shows "\<exists>vs ms vss. own_variables s (PyRef m) = Some vs \<and> own_metrics s (PyRef m) = Some ms
           \<and> those (map (own_variables s) ms) = Some vss
           \<and> (\<forall>v\<in>set (vs @ concat vss). is_instance IsVariable v s)"
proof -
  from constructed_own_variables [OF assms(1)] obtain vs where
    vs: "own_variables s (PyRef m) = Some vs" "\<forall>v\<in>set vs. is_instance IsVariable v s"
    by blast
  from constructed_own_metrics [OF assms(1)] obtain ms where
    ms: "own_metrics s (PyRef m) = Some ms"
    by blast
  with assms(2) have "list_all (is_constructed_metric s) ms"
    by (simp add: children_constructed_def)
  from children_own_variables [OF this] obtain vss where
    vss: "those (map (own_variables s) ms) = Some vss"
    "\<forall>v\<in>set (concat vss). is_instance IsVariable v s"
    by blast
  have "\<forall>v\<in>set (vs @ concat vss). is_instance IsVariable v s"
    using vs(2) vss(2) by auto
  with vs(1) ms vss(1) show ?thesis by blast
qed

lemma is_instance_variable_at:
  "is_instance IsVariable v s \<longleftrightarrow> variable_at s v \<noteq> None"
  by (cases v) (auto simp: is_instance_def variable_at_def split: option.splits obj.splits)


section \<open>Usage errors and the abstract methods\<close>

text \<open>
  Claim C3. On a metric whose class does not override \<^verbatim>\<open>update_state\<close> and
  \<^verbatim>\<open>result\<close>, calling \<^verbatim>\<open>update_state\<close> with any arguments raises
  \<^verbatim>\<open>NotImplementedError\<close>, and so does calling \<^verbatim>\<open>result\<close>; the store is left
  as it was.
\<close>

theorem default_update_state_result_not_implemented:
  "update_state Metric_methods self args s = (Inl NotImplementedError, s)
   \<and> result Metric_methods self s = (Inl NotImplementedError, s)"
  by (simp add: Metric_methods_def Metric_update_state_def Metric_result_def py_raise_def)

theorem default_update_state_result_not_implemented_witness:
  "update_state Metric_methods 0 [PyStr ''y_true'', PyStr ''y_pred''] counter_state
     = (Inl NotImplementedError, counter_state)
   \<and> result Metric_methods 0 counter_state = (Inl NotImplementedError, counter_state)"
  by (rule default_update_state_result_not_implemented)

text \<open>
  Claim C2. On an instance on which \<^verbatim>\<open>Metric.__init__\<close> has not completed (the
  attribute \<^verbatim>\<open>_tracker\<close>, which \<^verbatim>\<open>__init__\<close> binds last, is missing),
  \<^verbatim>\<open>add_variable\<close> and \<^verbatim>\<open>__call__\<close> raise the \<^verbatim>\<open>RuntimeError\<close> about the
  forgotten \<^verbatim>\<open>super().__init__()\<close>. The store is unchanged: no variable has been
  created, and neither \<^verbatim>\<open>update_state\<close> nor \<^verbatim>\<open>result\<close> has run, whatever they are.
\<close>

theorem unconstructed_raises_usage_error:
  assumes "\<not> hasattr (PyRef self) ''_tracker'' s"
  shows "Metric_add_variable E self shape initializer dtype name s
           = (Inl (RuntimeError super_init_message), s)
       \<and> Metric_call M self args s = (Inl (RuntimeError super_init_message), s)"
  using assms
  by (simp add: Metric_add_variable_def Metric_call_def check_super_called_def py_bind_def)

theorem unconstructed_raises_usage_error_witness:
  "\<not> hasattr (PyRef 0) ''_tracker'' skipped_state
   \<and> Metric_add_variable example_env 0 [] (PyStr ''zeros'') PyNone (PyStr ''total'') skipped_state
       = (Inl (RuntimeError super_init_message), skipped_state)
   \<and> Metric_call Counter_methods 0 5 skipped_state
       = (Inl (RuntimeError super_init_message), skipped_state)"
proof -
  have h: "\<not> hasattr (PyRef 0) ''_tracker'' skipped_state"
    by code_simp
  from unconstructed_raises_usage_error [OF h, where E = example_env and M = Counter_methods]
  show ?thesis using h by simp
qed

text \<open>
  Claim C9. On an instance whose base construction was skipped, the bodies of
  \<^verbatim>\<open>update_state\<close> and \<^verbatim>\<open>result\<close> of the base class raise
  \<^verbatim>\<open>NotImplementedError\<close>, not the usage error: they make no construction check,
  whereas \<^verbatim>\<open>__call__\<close> and \<^verbatim>\<open>add_variable\<close> raise the \<^verbatim>\<open>RuntimeError\<close> there.
\<close>

theorem unconstructed_default_methods_not_implemented:
  assumes "\<not> hasattr (PyRef self) ''_tracker'' s"
  shows "Metric_update_state self args s = (Inl NotImplementedError, s)
       \<and> Metric_result self s = (Inl NotImplementedError, s)
       \<and> fst (Metric_call Metric_methods self args s) = Inl (RuntimeError super_init_message)
       \<and> fst (Metric_add_variable E self shape initializer dtype name s)
            = Inl (RuntimeError super_init_message)
       \<and> NotImplementedError \<noteq> RuntimeError super_init_message"
  using assms
  by (simp add: Metric_update_state_def Metric_result_def py_raise_def
      Metric_add_variable_def Metric_call_def check_super_called_def py_bind_def)

theorem unconstructed_default_methods_not_implemented_witness:
  "\<not> hasattr (PyRef 0) ''_tracker'' skipped_state
   \<and> Metric_update_state 0 [PyStr ''y''] skipped_state = (Inl NotImplementedError, skipped_state)
   \<and> Metric_result 0 skipped_state = (Inl NotImplementedError, skipped_state)"
proof -
  have h: "\<not> hasattr (PyRef 0) ''_tracker'' skipped_state"
    by code_simp
  from unconstructed_default_methods_not_implemented [OF h, of "[PyStr ''y'']"]
  show ?thesis using h by simp
qed

section \<open>The call entry point and the alias\<close>

text \<open>
  Claim C5. On a metric on which base construction has completed, \<^verbatim>\<open>__call__\<close> with
  any inputs is \<^verbatim>\<open>update_state\<close> on those inputs followed by \<^verbatim>\<open>result\<close>: it returns
  what \<^verbatim>\<open>result\<close> returns in the store that \<^verbatim>\<open>update_state\<close> left, and an exception
  of \<^verbatim>\<open>update_state\<close> is passed on.
\<close>

theorem call_is_update_state_then_result:
  assumes "hasattr (PyRef self) ''_tracker'' s"
  shows "Metric_call M self args s = invoke_spec M self args s
       \<and> (\<forall>s'. update_state M self args s = (Inr (), s') \<longrightarrow>
              Metric_call M self args s = result M self s')
       \<and> (\<forall>e s'. update_state M self args s = (Inl e, s') \<longrightarrow>
              Metric_call M self args s = (Inl e, s'))"
  using assms
  by (simp add: Metric_call_def invoke_spec_def check_super_called_def py_bind_def)

theorem call_is_update_state_then_result_witness:
  "hasattr (PyRef 0) ''_tracker'' counter_state
   \<and> Metric_call Counter_methods 0 5 counter_state = invoke_spec Counter_methods 0 5 counter_state
   \<and> fst (invoke_spec Counter_methods 0 5 counter_state) = Inr (PyRef 4)
   \<and> value_of (snd (invoke_spec Counter_methods 0 5 counter_state)) (PyRef 4) = Some 5"
proof -
  have h: "hasattr (PyRef 0) ''_tracker'' counter_state"
    by code_simp
  have r: "fst (Metric_call Counter_methods 0 5 counter_state) = Inr (PyRef 4)"
    by code_simp
  have v: "value_of (snd (Metric_call Counter_methods 0 5 counter_state)) (PyRef 4) = Some 5"
    by code_simp
  from call_is_update_state_then_result [OF h, of Counter_methods 5]
  show ?thesis using h r v by simp
qed

text \<open>
  Claim C8. \<^verbatim>\<open>add_weight\<close> behaves as \<^verbatim>\<open>add_variable\<close> on the same arguments: the
  same result or exception and the same store afterwards.
\<close>

theorem add_weight_is_add_variable:
  "Metric_add_weight E self shape initializer dtype name s
     = Metric_add_variable E self shape initializer dtype name s"
  by (simp add: Metric_add_weight_def)

theorem add_weight_is_add_variable_witness:
  "Metric_add_weight example_env 0 [] (PyStr ''zeros'') PyNone PyNone counter_state
     = Metric_add_variable example_env 0 [] (PyStr ''zeros'') PyNone PyNone counter_state
   \<and> fst (Metric_add_weight example_env 0 [] (PyStr ''zeros'') PyNone PyNone counter_state)
       = Inr (PyRef 5)
   \<and> fst (Metric_add_weight example_env 0 [] (PyStr ''twos'') PyNone PyNone counter_state)
       = Inl ValueError
   \<and> fst (Metric_add_weight example_env 0 [] (PyStr ''zeros'') PyNone PyNone skipped_state)
       = Inl (RuntimeError super_init_message)"
proof -
  have a: "fst (Metric_add_variable example_env 0 [] (PyStr ''zeros'') PyNone PyNone counter_state)
       = Inr (PyRef 5)"
    by code_simp
  have b: "fst (Metric_add_variable example_env 0 [] (PyStr ''twos'') PyNone PyNone counter_state)
       = Inl ValueError"
    by code_simp
  have c: "fst (Metric_add_variable example_env 0 [] (PyStr ''zeros'') PyNone PyNone skipped_state)
       = Inl (RuntimeError super_init_message)"
    by code_simp
  show ?thesis
    using a b c by (simp add: add_weight_is_add_variable)
qed

section \<open>The effective variables\<close>

lemma those_concat_mem:
  "those (map f ms) = Some vss \<Longrightarrow>
     v \<in> set (concat vss) \<longleftrightarrow> (\<exists>c\<in>set ms. \<exists>xs. f c = Some xs \<and> v \<in> set xs)"
proof (induction ms arbitrary: vss)
  case Nil
  then show ?case by simp
next
  case (Cons c ms)
  from Cons.prems obtain xs rest where xs: "f c = Some xs"
    and rest: "those (map f ms) = Some rest" and vss: "vss = xs # rest"
    by (auto split: option.splits)
  show ?case
    using Cons.IH [OF rest] xs by (auto simp: vss)
qed

text \<open>
  Claim C1, as amended. On a constructed metric whose child metrics are constructed,
  \<^verbatim>\<open>variables\<close> returns the metric's own variables in insertion order (\<open>vs\<close>),
  followed by the own variables (\<^verbatim>\<open>_variables\<close>, \<open>vss\<close>) of each metric in
  \<^verbatim>\<open>_metrics\<close> (\<open>ms\<close>), in order, and nothing else: a value is in the result
  exactly when it is in the metric's own registry or in the own registry of one of its
  direct children. The store is not changed.
\<close>

theorem variables_own_then_children:
  assumes "constructed s m" and "children_constructed s m"
  shows "\<exists>vs ms vss.
           own_variables s (PyRef m) = Some vs
         \<and> own_metrics s (PyRef m) = Some ms
         \<and> those (map (own_variables s) ms) = Some vss
         \<and> Metric_variables m s = (Inr (vs @ concat vss), s)
         \<and> (\<forall>v. v \<in> set (vs @ concat vss) \<longleftrightarrow>
                  v \<in> set vs \<or> (\<exists>c\<in>set ms. \<exists>xs. own_variables s c = Some xs \<and> v \<in> set xs))"
proof -
  from constructed_variables [OF assms] obtain vs ms vss where
    o: "own_variables s (PyRef m) = Some vs" "own_metrics s (PyRef m) = Some ms"
    "those (map (own_variables s) ms) = Some vss"
    by blast
  have v: "Metric_variables m s = (Inr (vs @ concat vss), s)"
    by (rule Metric_variables_those [OF o])
  have "\<forall>v. v \<in> set (vs @ concat vss) \<longleftrightarrow>
          v \<in> set vs \<or> (\<exists>c\<in>set ms. \<exists>xs. own_variables s c = Some xs \<and> v \<in> set xs)"
    using those_concat_mem [OF o(3)] by auto
  with o v show ?thesis
    by blast
qed

theorem variables_own_then_children_witness:
  "constructed shared_grand_state 0 \<and> children_constructed shared_grand_state 0
   \<and> own_variables shared_grand_state (PyRef 0) = Some [PyRef 4, PyRef 14]
   \<and> own_metrics shared_grand_state (PyRef 0) = Some [PyRef 5]
   \<and> own_variables shared_grand_state (PyRef 5) = Some [PyRef 9]
   \<and> Metric_variables 0 shared_grand_state
       = (Inr [PyRef 4, PyRef 14, PyRef 9], shared_grand_state)"
proof -
  have c: "constructed shared_grand_state 0"
    by code_simp
  have cc: "children_constructed shared_grand_state 0"
    by code_simp
  have a: "own_variables shared_grand_state (PyRef 0) = Some [PyRef 4, PyRef 14]"
    by code_simp
  have b: "own_metrics shared_grand_state (PyRef 0) = Some [PyRef 5]"
    by code_simp
  have d: "own_variables shared_grand_state (PyRef 5) = Some [PyRef 9]"
    by code_simp
  from variables_own_then_children [OF c cc] obtain vs ms vss where r:
    "own_variables shared_grand_state (PyRef 0) = Some vs"
    "own_metrics shared_grand_state (PyRef 0) = Some ms"
    "those (map (own_variables shared_grand_state) ms) = Some vss"
    "Metric_variables 0 shared_grand_state = (Inr (vs @ concat vss), shared_grand_state)"
    by blast
  from r(1) a have vs: "vs = [PyRef 4, PyRef 14]" by simp
  from r(2) b have ms: "ms = [PyRef 5]" by simp
  from r(3) d have vss: "vss = [[PyRef 9]]" by (simp add: ms)
  from r(4) have "Metric_variables 0 shared_grand_state
       = (Inr [PyRef 4, PyRef 14, PyRef 9], shared_grand_state)"
    by (simp add: vs vss)
  with c cc a b d show ?thesis
    by blast
qed

text \<open>
  Claim C1 as stated fails on the chain \<^verbatim>\<open>top\<close> (object 0), \<^verbatim>\<open>child\<close> (5),
  \<^verbatim>\<open>grandchild\<close> (10): the grandchild's variable, object 14, is not among the
  variables of \<^verbatim>\<open>top\<close>.
\<close>

theorem variables_omit_grandchild_counterexample:
  "own_metrics chain_state (PyRef 0) = Some [PyRef 5]
   \<and> own_metrics chain_state (PyRef 5) = Some [PyRef 10]
   \<and> own_variables chain_state (PyRef 10) = Some [PyRef 14]
   \<and> fst (Metric_variables 10 chain_state) = Inr [PyRef 14]
   \<and> fst (Metric_variables 0 chain_state) = Inr [PyRef 4, PyRef 9]
   \<and> PyRef 14 \<notin> set [PyRef 4, PyRef 9]"
  by code_simp

section \<open>Creating a variable\<close>

lemma add_variable_result:
  assumes c: "constructed s m"
    and r: "Metric_add_variable E m shape initializer dtype name s = (Inr r, s')"
  shows "\<exists>vs var.
           r = PyRef (length (heap s))
         \<and> length (heap s') = Suc (length (heap s))
         \<and> own_variables s (PyRef m) = Some vs
         \<and> own_variables s' (PyRef m) = Some (vs @ [r])
         \<and> variable_at s' r = Some var
         \<and> \<not> var_trainable var
         \<and> var_shape var = shape \<and> var_dtype var = dtype \<and> var_name var = name
         \<and> (\<forall>v\<in>set vs. variable_at s' v = variable_at s v)
         \<and> own_metrics s' (PyRef m) = own_metrics s (PyRef m)
         \<and> attr s' (PyRef m) = attr s (PyRef m)
         \<and> (\<forall>a<length (heap s).
               attr s (PyRef m) ''_variables'' \<noteq> Some (PyRef a)
               \<and> attr s (PyRef m) ''_tracker'' \<noteq> Some (PyRef a) \<longrightarrow>
               deref s' a = deref s a)
         \<and> uids s' = uids s
         \<and> constructed s' m"
proof -
  from c obtain c' d lv lm t vs ms T where h:
    "deref s m = Some (OMetric c' d)"
    "d ''_variables'' = Some (PyRef lv)" "d ''_metrics'' = Some (PyRef lm)"
    "d ''_tracker'' = Some (PyRef t)"
    "d ''name'' \<noteq> None" "d ''_dtype'' \<noteq> None"
    "deref s lv = Some (OList vs)" "deref s lm = Some (OList ms)"
    "deref s t = Some (OTracker T)"
    "lv \<noteq> lm"
    "config T = [(''variables'', IsVariable, PyRef lv), (''metrics'', IsMetric, PyRef lm)]"
    "registry_ok s IsVariable vs (stored_ids T ''variables'')"
    "registry_ok s IsMetric ms (stored_ids T ''metrics'')"
    unfolding constructed_iff by blast
  from h(12) obtain S where S: "stored_ids T ''variables'' = Some S"
    by (auto simp: registry_ok_iff)
  from add_variable_success [OF r] obtain i' x where
    i: "initializers_get E initializer = Inr i'" and x: "initial_value E i' shape dtype = Inr x"
    by blast
  let ?n = "length (heap s)"
  let ?T' = "T\<lparr>stored_ids := (stored_ids T)(''variables'' \<mapsto> insert ?n S)\<rparr>"
  let ?h' = "(heap s @ [OVariable (added_variable shape dtype name x)])
                 [lv := OList (vs @ [PyRef ?n]), t := OTracker ?T']"
  have eff: "r = PyRef ?n" "s' = s\<lparr>heap := ?h'\<rparr>"
    using add_variable_effect [OF h(1) h(2) h(4) h(7) h(9) S i x, of name] r by simp_all
  have b: "m < ?n" "heap s ! m = OMetric c' d" "lv < ?n" "heap s ! lv = OList vs"
    "lm < ?n" "heap s ! lm = OList ms" "t < ?n" "heap s ! t = OTracker T"
    using h by (auto simp: deref_Some_iff)
  have ne: "m \<noteq> lv" "m \<noteq> t" "m \<noteq> lm" "lv \<noteq> t" "lm \<noteq> t"
    using b by auto
  have len: "length (heap s') = Suc ?n"
    by (simp add: eff)
  have at: "heap s' ! m = OMetric c' d" "heap s' ! lv = OList (vs @ [PyRef ?n])"
    "heap s' ! lm = OList ms" "heap s' ! t = OTracker ?T'"
    "heap s' ! ?n = OVariable (added_variable shape dtype name x)"
    using b ne h(10) by (simp_all add: eff nth_append)
  have frame: "heap s' ! a = heap s ! a" if "a < ?n" "a \<noteq> lv" "a \<noteq> t" for a
    using that by (simp add: eff nth_append)
  have frame': "heap s' ! a = heap s ! a"
    if "a < ?n" "\<forall>xs. heap s ! a \<noteq> OList xs" "\<forall>T. heap s ! a \<noteq> OTracker T" for a
    using that b frame [of a] by auto
  have attr_eq: "attr s' (PyRef m) = attr s (PyRef m)"
    using b at len by (auto simp: attr_def deref_def fun_eq_iff)
  have vars: "\<forall>v\<in>set vs. variable_at s' v = variable_at s v"
  proof
    fix v assume "v \<in> set vs"
    with h(12) have "is_instance IsVariable v s"
      by (auto simp: registry_ok_iff)
    then obtain a y where a: "v = PyRef a" "a < ?n" "heap s ! a = OVariable y"
      by (auto simp: is_instance_iff)
    with frame' [of a] len show "variable_at s' v = variable_at s v"
      by (simp add: variable_at_def deref_def)
  qed
  have new_inst: "is_instance IsVariable (PyRef ?n) s'"
    using at len by (simp add: is_instance_iff)
  have fresh: "?n \<notin> S"
    using registry_ok_bound [of s IsVariable vs S ?n] h(12) S by fastforce
  have len': "length (heap s) \<le> length (heap s')"
    using len by simp
  have ok_s: "registry_ok s IsVariable vs (Some S)"
    using h(12) S by simp
  have ok_v: "registry_ok s' IsVariable (vs @ [PyRef ?n]) (Some (insert ?n S))"
    by (rule registry_ok_append [OF ok_s new_inst fresh len' frame'])
  have ok_m: "registry_ok s' IsMetric ms (stored_ids T ''metrics'')"
    by (rule registry_ok_frame [OF h(13) len' frame'])
  have c': "constructed s' m"
    unfolding constructed_iff
    using b at len h ok_v ok_m by (auto simp: deref_Some_iff)
  have "own_variables s (PyRef m) = Some vs"
    using h by (simp add: own_variables_def attr_def list_at_def)
  moreover have "own_variables s' (PyRef m) = Some (vs @ [r])"
    using b at len h by (simp add: own_variables_def attr_def list_at_def deref_def eff(1))
  moreover have "variable_at s' r = Some (added_variable shape dtype name x)"
    using at len by (simp add: variable_at_def deref_def eff(1))
  moreover have "own_metrics s' (PyRef m) = own_metrics s (PyRef m)"
    using b at len h by (simp add: own_metrics_def attr_def list_at_def deref_def)
  moreover have "\<forall>a<?n. attr s (PyRef m) ''_variables'' \<noteq> Some (PyRef a)
               \<and> attr s (PyRef m) ''_tracker'' \<noteq> Some (PyRef a) \<longrightarrow> deref s' a = deref s a"
    using b h frame len by (auto simp: attr_def deref_def)
  moreover have "uids s' = uids s"
    by (simp add: eff)
  ultimately show ?thesis
    using eff(1) len vars attr_eq c'
    by (simp add: added_variable_def)
qed

text \<open>
  Claim C10. On a constructed metric, a call of \<^verbatim>\<open>add_variable\<close> that returns has
  created one new object, a variable that is not trainable and carries the given shape,
  dtype and name, has appended it at the end of the metric's own registry, and has
  returned it. The metric's attributes (among them \<^verbatim>\<open>name\<close> and \<^verbatim>\<open>_dtype\<close>), its
  child registry and the variables registered before are unchanged, as is every object
  other than the registry list and the tracker; the metric is still constructed.
\<close>

theorem add_variable_frame:
  assumes c: "constructed s m"
    and r: "Metric_add_variable E m shape initializer dtype name s = (Inr r, s')"
  shows "\<exists>vs var.
           r = PyRef (length (heap s))
         \<and> length (heap s') = Suc (length (heap s))
         \<and> own_variables s (PyRef m) = Some vs
         \<and> own_variables s' (PyRef m) = Some (vs @ [r])
         \<and> variable_at s' r = Some var
         \<and> \<not> var_trainable var
         \<and> var_shape var = shape \<and> var_dtype var = dtype \<and> var_name var = name
         \<and> (\<forall>v\<in>set vs. variable_at s' v = variable_at s v)
         \<and> own_metrics s' (PyRef m) = own_metrics s (PyRef m)
         \<and> attr s' (PyRef m) = attr s (PyRef m)
         \<and> (\<forall>a<length (heap s).
               attr s (PyRef m) ''_variables'' \<noteq> Some (PyRef a)
               \<and> attr s (PyRef m) ''_tracker'' \<noteq> Some (PyRef a) \<longrightarrow>
               deref s' a = deref s a)
         \<and> uids s' = uids s
         \<and> constructed s' m"
  using c r by (rule add_variable_result)

theorem add_variable_frame_witness:
  "constructed counter_state 0
   \<and> fst (Metric_add_variable example_env 0 [2] (PyStr ''ones'') PyNone (PyStr ''n'') counter_state)
       = Inr (PyRef 5)
   \<and> own_variables counter_state (PyRef 0) = Some [PyRef 4]
   \<and> own_variables
        (after (Metric_add_variable example_env 0 [2] (PyStr ''ones'') PyNone (PyStr ''n''))
           counter_state) (PyRef 0) = Some [PyRef 4, PyRef 5]
   \<and> constructed
        (after (Metric_add_variable example_env 0 [2] (PyStr ''ones'') PyNone (PyStr ''n''))
           counter_state) 0"
proof -
  let ?call = "Metric_add_variable example_env 0 [2] (PyStr ''ones'') PyNone (PyStr ''n'')"
  have c: "constructed counter_state 0"
    by code_simp
  have f: "fst (?call counter_state) = Inr (PyRef 5)"
    by code_simp
  have o: "own_variables counter_state (PyRef 0) = Some [PyRef 4]"
    by code_simp
  have r: "?call counter_state = (Inr (PyRef 5), after ?call counter_state)"
    using f by (simp add: after_def prod_eq_iff)
  from add_variable_frame [OF c r] obtain vs where
    vs: "own_variables counter_state (PyRef 0) = Some vs"
    "own_variables (after ?call counter_state) (PyRef 0) = Some (vs @ [PyRef 5])"
    "constructed (after ?call counter_state) 0"
    by blast
  from vs(1) o have "vs = [PyRef 4]"
    by simp
  with vs c f o show ?thesis
    by simp
qed

section \<open>Resetting the state\<close>

text \<open>
  Claim C4, as amended. On a constructed metric whose child metrics are constructed,
  \<^verbatim>\<open>reset_state\<close> returns and has assigned zero to every variable that
  \<^verbatim>\<open>variables\<close> returns, that is, to the metric's own variables and to the own
  variables of its direct children: afterwards each of them reads as zero,
  \<^verbatim>\<open>variables\<close> returns the same list, every variable that is not in that list is as
  it was, and the metric is still constructed.
\<close>

theorem reset_state_zeroes_variables:
  assumes c: "constructed s m" and cc: "children_constructed s m"
  shows "\<exists>vs s'. Metric_variables m s = (Inr vs, s)
           \<and> Metric_reset_state m s = (Inr (), s')
           \<and> (\<forall>v\<in>set vs. value_of s' v = Some 0)
           \<and> (\<forall>v. v \<notin> set vs \<longrightarrow> variable_at s' v = variable_at s v)
           \<and> Metric_variables m s' = (Inr vs, s')
           \<and> constructed s' m"
proof -
  from constructed_variables [OF c cc] obtain vs ms vss where
    o: "own_variables s (PyRef m) = Some vs" "own_metrics s (PyRef m) = Some ms"
    "those (map (own_variables s) ms) = Some vss"
    and i: "\<forall>v\<in>set (vs @ concat vss). is_instance IsVariable v s"
    by blast
  let ?all = "vs @ concat vss"
  have v: "Metric_variables m s = (Inr ?all, s)"
    by (rule Metric_variables_those [OF o])
  from i have "\<forall>v\<in>set ?all. variable_at s v \<noteq> None"
    by (simp add: is_instance_variable_at)
  from assign_zero_all_effect [OF this] obtain s' where s':
    "assign_zero_all ?all s = (Inr (), s')"
    "length (heap s') = length (heap s)"
    "\<forall>a<length (heap s).
        heap s' ! a = (if PyRef a \<in> set ?all then zeroed (heap s ! a) else heap s ! a)"
    by blast
  have r: "Metric_reset_state m s = (Inr (), s')"
    using v s'(1) by (simp add: Metric_reset_state_def py_bind_def)
  have z: "\<forall>w\<in>set ?all. value_of s' w = Some 0"
  proof
    fix w assume w: "w \<in> set ?all"
    with i have "is_instance IsVariable w s" by blast
    then obtain x where "variable_at s w = Some x"
      by (auto simp: is_instance_variable_at)
    then obtain a where a: "w = PyRef a" "a < length (heap s)" "heap s ! a = OVariable x"
      unfolding variable_at_Some_iff by blast
    from s'(3) a w have "heap s' ! a = zeroed (heap s ! a)"
      by simp
    with a s'(2) show "value_of s' w = Some 0"
      by (simp add: value_of_def variable_at_def deref_def zeroed_def)
  qed
  have f: "\<forall>w. w \<notin> set ?all \<longrightarrow> variable_at s' w = variable_at s w"
  proof (intro allI impI)
    fix w assume w: "w \<notin> set ?all"
    show "variable_at s' w = variable_at s w"
    proof (cases w)
      case (PyRef a)
      show ?thesis
      proof (cases "a < length (heap s)")
        case True
        with s'(3) w PyRef have "heap s' ! a = heap s ! a" by simp
        with True s'(2) PyRef show ?thesis
          by (simp add: variable_at_def deref_def)
      next
        case False
        with s'(2) PyRef show ?thesis
          by (simp add: variable_at_def deref_def)
      qed
    qed (simp_all add: variable_at_def)
  qed
  have same: "same_but_values s s'"
    unfolding same_but_values_def
  proof (intro conjI allI impI)
    show "length (heap s') = length (heap s)" by (rule s'(2))
  next
    fix a assume "a < length (heap s)"
    with s'(3) have "heap s' ! a = zeroed (heap s ! a) \<or> heap s' ! a = heap s ! a"
      by (cases "PyRef a \<in> set ?all") simp_all
    then show "case heap s ! a of OVariable x \<Rightarrow> \<exists>y. heap s' ! a = OVariable y
                 | ob \<Rightarrow> heap s' ! a = ob"
      by (cases "heap s ! a") (auto simp: zeroed_def)
  qed
  have o': "own_variables s' (PyRef m) = Some vs" "own_metrics s' (PyRef m) = Some ms"
    "those (map (own_variables s') ms) = Some vss"
    using o by (simp_all add: same_but_values_own [OF same] cong: map_cong)
  have v': "Metric_variables m s' = (Inr ?all, s')"
    by (rule Metric_variables_those [OF o'])
  have c': "constructed s' m"
    using c by (simp add: same_but_values_constructed [OF same])
  from v r z f v' c' show ?thesis
    by blast
qed

theorem reset_state_zeroes_variables_witness:
  "constructed chain_state 0 \<and> children_constructed chain_state 0
   \<and> value_of chain_state (PyRef 4) = Some 2
   \<and> value_of chain_state (PyRef 9) = Some 3
   \<and> fst (Metric_variables 0 chain_state) = Inr [PyRef 4, PyRef 9]
   \<and> value_of (after (Metric_reset_state 0) chain_state) (PyRef 4) = Some 0
   \<and> value_of (after (Metric_reset_state 0) chain_state) (PyRef 9) = Some 0"
proof -
  have c: "constructed chain_state 0"
    by code_simp
  have cc: "children_constructed chain_state 0"
    by code_simp
  have b: "value_of chain_state (PyRef 4) = Some 2" "value_of chain_state (PyRef 9) = Some 3"
    by code_simp+
  have v: "fst (Metric_variables 0 chain_state) = Inr [PyRef 4, PyRef 9]"
    by code_simp
  from reset_state_zeroes_variables [OF c cc] obtain vs s' where r:
    "Metric_variables 0 chain_state = (Inr vs, chain_state)"
    "Metric_reset_state 0 chain_state = (Inr (), s')"
    "\<forall>v\<in>set vs. value_of s' v = Some 0"
    by blast
  from r(1) v have "vs = [PyRef 4, PyRef 9]"
    by simp
  moreover from r(2) have "after (Metric_reset_state 0) chain_state = s'"
    by (simp add: after_def)
  ultimately show ?thesis
    using r(3) c cc b v by simp
qed


text \<open>
  Claim C4 as stated fails on the chain of three counters: after \<^verbatim>\<open>top.reset_state()\<close>
  the grandchild's variable, object 14, a variable of a descendant, still reads 7.
\<close>

theorem reset_state_skips_grandchild_counterexample:
  "constructed chain_state 0
   \<and> own_metrics chain_state (PyRef 0) = Some [PyRef 5]
   \<and> own_metrics chain_state (PyRef 5) = Some [PyRef 10]
   \<and> own_variables chain_state (PyRef 10) = Some [PyRef 14]
   \<and> fst (Metric_reset_state 0 chain_state) = Inr ()
   \<and> value_of (after (Metric_reset_state 0) chain_state) (PyRef 14) = Some 7"
  by code_simp

section \<open>Registering variables and child metrics\<close>




























section \<open>The config round trip\<close>










end
